theory Spec2Isabelle
  imports Complex_Main "HOL-Library.Monad_Syntax"
begin

section \<open>Virality scoring of short texts: a shallow embedding of the two Python modules\<close>

text \<open>
  The development embeds \<^verbatim>\<open>enhanced_algorithm.py\<close> (class
  \<^verbatim>\<open>EnhancedTwitterAlgorithm\<close>) and the scoring part of
  \<^verbatim>\<open>twitter_algorithm_service.py\<close> (class \<^verbatim>\<open>TwitterAlgorithmService\<close>).

  Conventions of the embedding:
  \<^item> A Python \<^verbatim>\<open>float\<close> is a rational number (\<^typ>\<open>rat\<close>) and the decimal constants of
    the source denote themselves (\<^verbatim>\<open>0.3\<close> is \<open>3/10\<close>): arithmetic is exact, the
    rounding of binary floating point is not part of the model.
  \<^item> A Python \<^verbatim>\<open>int\<close> is an \<^typ>\<open>int\<close>.
  \<^item> A text is a \<^typ>\<open>string\<close>, a list of characters with code points 0 to 255; the
    character classes below are those of Python 3 on that range.
  \<^item> The three readings of the outside world (\<^verbatim>\<open>time.time()\<close>,
    \<^verbatim>\<open>datetime.now().hour\<close> and \<^verbatim>\<open>random.uniform(-0.1, 0.1)\<close>) are fields of an
    explicit environment record that is passed to the functions reading them.
\<close>

subsection \<open>Characters and strings\<close>

definition code :: "char \<Rightarrow> nat" where
  "code c = of_char c"

text \<open>\<^verbatim>\<open>str.lower\<close> on one character: A to Z and the accented capitals of the range
  (0xC0 to 0xDE without the multiplication sign 0xD7) move up by 32.\<close>

definition lower_char :: "char \<Rightarrow> char" where
  "lower_char c =
     (if (65 \<le> code c \<and> code c \<le> 90) \<or> (192 \<le> code c \<and> code c \<le> 222 \<and> code c \<noteq> 215)
      then char_of (code c + 32) else c)"

definition lower :: "string \<Rightarrow> string" where
  "lower s = map lower_char s"

text \<open>The class \<^verbatim>\<open>\s\<close> of the \<^verbatim>\<open>re\<close> module on text patterns.\<close>

definition is_space :: "char \<Rightarrow> bool" where
  "is_space c =
     ((9 \<le> code c \<and> code c \<le> 13) \<or> (28 \<le> code c \<and> code c \<le> 32)
      \<or> code c = 133 \<or> code c = 160)"

text \<open>The class \<^verbatim>\<open>\w\<close>: the underscore and every character that \<^verbatim>\<open>str.isalnum\<close> accepts.\<close>

definition is_word :: "char \<Rightarrow> bool" where
  "is_word c =
     ((48 \<le> code c \<and> code c \<le> 57) \<or> (65 \<le> code c \<and> code c \<le> 90) \<or> code c = 95
      \<or> (97 \<le> code c \<and> code c \<le> 122)
      \<or> code c = 170 \<or> code c = 178 \<or> code c = 179 \<or> code c = 181
      \<or> code c = 185 \<or> code c = 186 \<or> (188 \<le> code c \<and> code c \<le> 190)
      \<or> (192 \<le> code c \<and> code c \<le> 214) \<or> (216 \<le> code c \<and> code c \<le> 246)
      \<or> 248 \<le> code c)"

text \<open>\<^verbatim>\<open>s.startswith(p)\<close>.\<close>

fun startswith :: "string \<Rightarrow> string \<Rightarrow> bool" where
  "startswith s [] = True"
| "startswith [] (p # ps) = False"
| "startswith (c # cs) (p # ps) = (c = p \<and> startswith cs ps)"

text \<open>\<^verbatim>\<open>w in s\<close> on strings: \<open>w\<close> occurs in \<open>s\<close> as a contiguous substring.\<close>

fun contains :: "string \<Rightarrow> string \<Rightarrow> bool" where
  "contains [] w = (w = [])"
| "contains (c # cs) w = (startswith (c # cs) w \<or> contains cs w)"

text \<open>\<^verbatim>\<open>s.count(ch)\<close> for a single character \<open>ch\<close>, as an \<^verbatim>\<open>int\<close>.\<close>

definition count_char :: "string \<Rightarrow> char \<Rightarrow> int" where
  "count_char s ch = int (length (filter (\<lambda>c. c = ch) s))"

text \<open>The words of a list that occur in \<open>s\<close>, in the order of the list: the
  generator \<^verbatim>\<open>(word for word in words if word in s)\<close>.\<close>

definition found_in :: "string \<Rightarrow> string list \<Rightarrow> string list" where
  "found_in s words = filter (\<lambda>word. contains s word) words"

text \<open>\<^verbatim>\<open>bool(re.search(r'https?://[^\s]+', s))\<close>: somewhere in \<open>s\<close> one of the two
  schemes is followed by at least one character that is not white space.\<close>

fun nonspace_after :: "nat \<Rightarrow> string \<Rightarrow> bool" where
  "nonspace_after n s = (case drop n s of [] \<Rightarrow> False | c # _ \<Rightarrow> \<not> is_space c)"

fun search_url :: "string \<Rightarrow> bool" where
  "search_url [] = False"
| "search_url (c # cs) =
     ((startswith (c # cs) ''http://'' \<and> nonspace_after 7 (c # cs))
      \<or> (startswith (c # cs) ''https://'' \<and> nonspace_after 8 (c # cs))
      \<or> search_url cs)"

text \<open>\<^verbatim>\<open>bool(re.search(r'\[media\]|\[photo\]|\[video\]', s, re.IGNORECASE))\<close>: the pattern
  has ASCII letters only, and on the modelled range the only characters that match an ASCII
  letter without regard to case are its two ASCII forms.\<close>

definition search_media :: "string \<Rightarrow> bool" where
  "search_media s =
     (contains (lower s) ''[media]'' \<or> contains (lower s) ''[photo]'' \<or> contains (lower s) ''[video]'')"

text \<open>\<^verbatim>\<open>len(re.findall(mark + r'\w+', s))\<close> for \<open>mark\<close> one of \<^verbatim>\<open>#\<close> and \<^verbatim>\<open>@\<close>: the scan
  goes from left to right; at a mark followed by a word character the match takes the mark
  and the longest run of word characters after it, and the scan resumes behind the match.\<close>

function count_tags :: "char \<Rightarrow> string \<Rightarrow> int" where
  "count_tags mark [] = 0"
| "count_tags mark [c] = 0"
| "count_tags mark (c # d # cs) =
     (if c = mark \<and> is_word d then 1 + count_tags mark (dropWhile is_word cs)
      else count_tags mark (d # cs))"
  by pat_completeness auto
termination
  by (relation "measure (\<lambda>(mark, s). length s)")
     (auto simp: le_imp_less_Suc length_dropWhile_le less_SucI)

subsection \<open>The feature record\<close>

text \<open>The dataclass \<^verbatim>\<open>TweetFeatures\<close>, the same in both modules. The fields
  \<^verbatim>\<open>text\<close> and \<^verbatim>\<open>length\<close> carry a suffix here.\<close>

record TweetFeatures =
  text_f :: string
  has_url :: bool
  has_media :: bool
  is_retweet :: bool
  is_reply :: bool
  length_f :: int
  hashtag_count :: int
  mention_count :: int
  question_mark_count :: int
  exclamation_count :: int
  timestamp :: int
  author_id :: "string option"
  tweet_id :: "string option"

text \<open>What a call reads from outside: the clock in seconds (\<^verbatim>\<open>time.time()\<close>), the hour
  of the local time (\<^verbatim>\<open>datetime.now().hour\<close>) and the number drawn by
  \<^verbatim>\<open>random.uniform(-0.1, 0.1)\<close>.\<close>

record env =
  time_time :: rat
  now_hour :: nat
  random_uniform :: rat

text \<open>\<^verbatim>\<open>int(x)\<close> on a float: truncation towards zero.\<close>

definition py_int :: "rat \<Rightarrow> int" where
  "py_int x = (if 0 \<le> x then \<lfloor>x\<rfloor> else \<lceil>x\<rceil>)"

definition extract_features :: "env \<Rightarrow> string \<Rightarrow> TweetFeatures" where
  "extract_features e txt =
     \<lparr> text_f = txt,
       has_url = search_url txt,
       has_media = search_media txt,
       is_retweet = (startswith txt ''RT @'' \<or> contains txt ''via @''),
       is_reply = startswith txt ''@'',
       length_f = int (length txt),
       hashtag_count = count_tags (CHR ''#'') txt,
       mention_count = count_tags (CHR ''@'') txt,
       question_mark_count = count_char txt (CHR ''?''),
       exclamation_count = count_char txt (CHR ''!''),
       timestamp = py_int (time_time e * 1000),
       author_id = None,
       tweet_id = None \<rparr>"

subsection \<open>The keyword tables of the enhanced algorithm\<close>

definition trending_topics :: "(string \<times> rat) list" where
  "trending_topics =
     [(''ai'', 9/10), (''artificial intelligence'', 9/10), (''machine learning'', 8/10),
      (''crypto'', 8/10), (''bitcoin'', 8/10), (''blockchain'', 7/10),
      (''tech'', 7/10), (''startup'', 7/10), (''innovation'', 6/10),
      (''breaking'', 9/10), (''news'', 6/10), (''update'', 5/10),
      (''launch'', 8/10), (''release'', 7/10), (''announcement'', 8/10)]"

definition emotional_words :: "(string \<times> rat) list" where
  "emotional_words =
     [(''amazing'', 8/10), (''incredible'', 8/10), (''shocking'', 9/10),
      (''unbelievable'', 8/10), (''mind-blowing'', 9/10), (''wow'', 7/10),
      (''excited'', 6/10), (''thrilled'', 7/10), (''pumped'', 6/10),
      (''love'', 6/10), (''hate'', 5/10), (''angry'', 4/10)]"

definition cta_words :: "(string \<times> rat) list" where
  "cta_words =
     [(''what'', 6/10), (''think'', 7/10), (''opinion'', 8/10),
      (''agree'', 7/10), (''disagree'', 8/10), (''thoughts'', 8/10),
      (''share'', 7/10), (''retweet'', 6/10), (''comment'', 6/10)]"

definition professional_words :: "string list" where
  "professional_words = [''launch'', ''announce'', ''introduce'', ''release'', ''update'']"

definition toxic_words :: "string list" where
  "toxic_words = [''hate'', ''stupid'', ''idiot'', ''kill'', ''die'']"

subsection \<open>Sub-scores of the enhanced algorithm\<close>

text \<open>The loop \<^verbatim>\<open>for topic, score in table.items(): if topic in text_lower: ...\<close> with a
  running maximum.\<close>

definition calculate_trending_score :: "string \<Rightarrow> rat" where
  "calculate_trending_score txt =
     foldl (\<lambda>max_trending (topic, score).
              if contains (lower txt) topic then max max_trending score else max_trending)
       0 trending_topics"

text \<open>The same loop with a running sum, for the two weighted word tables.\<close>

definition sum_matches :: "(string \<times> rat) list \<Rightarrow> string \<Rightarrow> rat" where
  "sum_matches table txt =
     foldl (\<lambda>acc (word, score). if contains (lower txt) word then acc + score else acc)
       0 table"

definition calculate_emotional_score :: "string \<Rightarrow> rat" where
  "calculate_emotional_score txt = min (sum_matches emotional_words txt) 1"

definition calculate_cta_score :: "string \<Rightarrow> rat" where
  "calculate_cta_score txt = min (sum_matches cta_words txt) 1"

definition calculate_content_quality :: "TweetFeatures \<Rightarrow> rat" where
  "calculate_content_quality features =
     (let score = 3/10;
          score = (if 100 \<le> length_f features \<and> length_f features \<le> 200 then score + 3/10
                   else if 50 \<le> length_f features \<and> length_f features \<le> 280 then score + 2/10
                   else if length_f features < 50 then score - 1/10
                   else score);
          trending_score = calculate_trending_score (text_f features);
          score = score + trending_score * (2/10);
          emotional_score = calculate_emotional_score (text_f features);
          score = score + emotional_score * (15/100);
          cta_score = calculate_cta_score (text_f features);
          score = score + cta_score * (1/10);
          score = (if question_mark_count features > 0 then score + 1/10 else score);
          score = (if 1 \<le> exclamation_count features \<and> exclamation_count features \<le> 2
                   then score + 5/100
                   else if exclamation_count features > 3 then score - 5/100
                   else score)
      in max 0 (min 1 score))"

definition calculate_engagement_potential :: "TweetFeatures \<Rightarrow> rat" where
  "calculate_engagement_potential features =
     (let score = 2/10;
          score = (if question_mark_count features > 0 then score + 25/100 else score);
          cta_score = calculate_cta_score (text_f features);
          score = score + cta_score * (2/10);
          emotional_score = calculate_emotional_score (text_f features);
          score = score + emotional_score * (15/100);
          score = (if 1 \<le> hashtag_count features \<and> hashtag_count features \<le> 3
                   then score + 1/10
                   else if hashtag_count features > 5 then score - 1/10
                   else score);
          score = (if 1 \<le> mention_count features \<and> mention_count features \<le> 2
                   then score + 5/100
                   else if mention_count features > 3 then score - 5/100
                   else score);
          score = (if has_url features then score + 5/100 else score)
      in max 0 (min 1 score))"

definition calculate_dynamic_timing :: "env \<Rightarrow> rat" where
  "calculate_dynamic_timing e =
     (let hour = now_hour e in
      if 9 \<le> hour \<and> hour \<le> 10 then 9/10
      else if 12 \<le> hour \<and> hour \<le> 13 then 85/100
      else if 17 \<le> hour \<and> hour \<le> 18 then 8/10
      else if 19 \<le> hour \<and> hour \<le> 21 then 75/100
      else if 8 \<le> hour \<and> hour \<le> 22 then 6/10
      else 3/10)"

definition calculate_user_reputation :: "env \<Rightarrow> string \<Rightarrow> rat" where
  "calculate_user_reputation e txt =
     (let sophistication_score = 5/10;
          sophistication_score =
            (if length txt > 100 then sophistication_score + 1/10 else sophistication_score);
          trending_score = calculate_trending_score txt;
          sophistication_score = sophistication_score + trending_score * (1/10);
          sophistication_score =
            (if list_ex (\<lambda>word. contains (lower txt) word) professional_words
             then sophistication_score + 1/10 else sophistication_score);
          sophistication_score = sophistication_score + random_uniform e
      in max (3/10) (min (9/10) sophistication_score))"

subsection \<open>Breakdown, suggestions and the composite score of the enhanced algorithm\<close>

text \<open>The dictionary \<^verbatim>\<open>breakdown\<close> is built with exactly five keys and only read
  afterwards: a record with one field for each key.\<close>

record breakdown =
  content_quality :: rat
  social_signals :: rat
  timing :: rat
  user_reputation :: rat
  safety_score :: rat

text \<open>One entry of the suggestion list (the key \<^verbatim>\<open>type\<close> carries a suffix).\<close>

record suggestion =
  type_s :: string
  priority :: string
  suggestion :: string
  expected_improvement :: int

definition expand_content :: suggestion where
  "expand_content =
     \<lparr> type_s = ''content'', priority = ''high'',
       suggestion = ''Expand your tweet to 100-200 characters for better engagement'',
       expected_improvement = 20 \<rparr>"

definition add_keywords :: suggestion where
  "add_keywords =
     \<lparr> type_s = ''content'', priority = ''high'',
       suggestion = ''Add trending keywords or emotional language to boost content quality'',
       expected_improvement = 15 \<rparr>"

definition add_question :: suggestion where
  "add_question =
     \<lparr> type_s = ''engagement'', priority = ''high'',
       suggestion = ''Add a question to encourage replies and increase engagement'',
       expected_improvement = 25 \<rparr>"

definition more_cta :: suggestion where
  "more_cta =
     \<lparr> type_s = ''engagement'', priority = ''medium'',
       suggestion =
         ''Use more call-to-action words like '' @ [CHR 0x22] @ ''think'' @ [CHR 0x22]
         @ '', '' @ [CHR 0x22] @ ''opinion'' @ [CHR 0x22] @ '', or '' @ [CHR 0x22] @ ''share''
         @ [CHR 0x22],
       expected_improvement = 15 \<rparr>"

definition peak_hours :: suggestion where
  "peak_hours =
     \<lparr> type_s = ''timing'', priority = ''medium'',
       suggestion =
         ''Consider posting during peak hours (9-10 AM, 12-1 PM, 5-6 PM, 7-9 PM)'',
       expected_improvement = 10 \<rparr>"

definition add_hashtags :: suggestion where
  "add_hashtags =
     \<lparr> type_s = ''discoverability'', priority = ''medium'',
       suggestion = ''Add 1-3 relevant hashtags to increase discoverability'',
       expected_improvement = 12 \<rparr>"

definition reduce_hashtags :: suggestion where
  "reduce_hashtags =
     \<lparr> type_s = ''discoverability'', priority = ''low'',
       suggestion = ''Reduce hashtags to 1-3 for better performance'',
       expected_improvement = 8 \<rparr>"

text \<open>The four rule groups of \<^verbatim>\<open>generate_suggestions\<close>, each the list of what the group
  appends, in the order of the source.\<close>

definition content_rule :: "breakdown \<Rightarrow> TweetFeatures \<Rightarrow> suggestion list" where
  "content_rule b features =
     (if content_quality b < 6/10
      then (if length_f features < 100 then [expand_content] else [add_keywords])
      else [])"

definition engagement_rule :: "breakdown \<Rightarrow> TweetFeatures \<Rightarrow> suggestion list" where
  "engagement_rule b features =
     (if social_signals b < 5/10
      then (if question_mark_count features = 0 then [add_question] else [more_cta])
      else [])"

definition timing_rule :: "breakdown \<Rightarrow> suggestion list" where
  "timing_rule b = (if timing b < 7/10 then [peak_hours] else [])"

definition hashtag_rule :: "TweetFeatures \<Rightarrow> suggestion list" where
  "hashtag_rule features =
     (if hashtag_count features = 0 then [add_hashtags]
      else if hashtag_count features > 3 then [reduce_hashtags]
      else [])"

definition generate_suggestions :: "breakdown \<Rightarrow> TweetFeatures \<Rightarrow> suggestion list" where
  "generate_suggestions b features =
     [] @ content_rule b features @ engagement_rule b features @ timing_rule b
        @ hashtag_rule features"

text \<open>\<^verbatim>\<open>sum(0.2 for word in toxic_words if word in text.lower())\<close>.\<close>

definition toxicity :: "string \<Rightarrow> rat" where
  "toxicity txt = sum_list (map (\<lambda>word. 2/10) (found_in (lower txt) toxic_words))"

text \<open>The local variable \<^verbatim>\<open>safety_score\<close> of \<^verbatim>\<open>calculate_virality_score\<close>; the entry of
  the breakdown with the same name is this value times 0.2.\<close>

definition safety :: "string \<Rightarrow> rat" where
  "safety txt = max 0 (1 - toxicity txt)"

record score =
  light_ranker_score :: rat
  heavy_ranker_score :: "rat option"
  toxicity_score :: rat
  engagement_score :: rat
  virality_score :: int
  features :: TweetFeatures
  breakdown :: breakdown

record result =
  score :: score
  suggestions :: "suggestion list"
  algorithm_version :: string
  processing_time :: int

definition make_breakdown :: "env \<Rightarrow> string \<Rightarrow> breakdown" where
  "make_breakdown e txt =
     (let features = extract_features e txt in
      \<lparr> content_quality = calculate_content_quality features,
        social_signals = calculate_engagement_potential features,
        timing = calculate_dynamic_timing e,
        user_reputation = calculate_user_reputation e txt,
        safety_score = safety txt * (2/10) \<rparr>)"

definition calculate_virality_score :: "env \<Rightarrow> string \<Rightarrow> result" where
  "calculate_virality_score e txt =
     (let features = extract_features e txt;
          b = make_breakdown e txt;
          virality =
            py_int ((content_quality b + social_signals b + timing b + user_reputation b
                     + safety_score b) * 100);
          suggs = generate_suggestions b features
      in \<lparr> score =
             \<lparr> light_ranker_score = content_quality b,
               heavy_ranker_score = None,
               toxicity_score = toxicity txt,
               engagement_score = social_signals b,
               virality_score = virality,
               features = features,
               breakdown = b \<rparr>,
           suggestions = suggs,
           algorithm_version = ''enhanced-ai-v2.0'',
           processing_time = 0 \<rparr>)"

subsection \<open>The service: objects, the guard and the handlers\<close>

text \<open>Python does not check the annotations of a dataclass: a field of the record a
  calculator of the service receives may hold any object. The objects that matter here are
  \<^verbatim>\<open>None\<close>, booleans, integers, floats and strings.\<close>

datatype pyval = PNone | PBool bool | PInt int | PFloat rat | PStr string

record TweetFeatures_obj =
  text_o :: pyval
  has_url_o :: pyval
  has_media_o :: pyval
  is_retweet_o :: pyval
  is_reply_o :: pyval
  length_o :: pyval
  hashtag_count_o :: pyval
  mention_count_o :: pyval
  question_mark_count_o :: pyval
  exclamation_count_o :: pyval
  timestamp_o :: pyval
  author_id_o :: pyval
  tweet_id_o :: pyval

text \<open>The record \<^verbatim>\<open>extract_features\<close> builds, seen as objects.\<close>

definition obj_of_opt :: "string option \<Rightarrow> pyval" where
  "obj_of_opt x = (case x of None \<Rightarrow> PNone | Some s \<Rightarrow> PStr s)"

definition to_obj :: "TweetFeatures \<Rightarrow> TweetFeatures_obj" where
  "to_obj f =
     \<lparr> text_o = PStr (text_f f),
       has_url_o = PBool (has_url f),
       has_media_o = PBool (has_media f),
       is_retweet_o = PBool (is_retweet f),
       is_reply_o = PBool (is_reply f),
       length_o = PInt (length_f f),
       hashtag_count_o = PInt (hashtag_count f),
       mention_count_o = PInt (mention_count f),
       question_mark_count_o = PInt (question_mark_count f),
       exclamation_count_o = PInt (exclamation_count f),
       timestamp_o = PInt (timestamp f),
       author_id_o = obj_of_opt (author_id f),
       tweet_id_o = obj_of_opt (tweet_id f) \<rparr>"

text \<open>Inside a \<^verbatim>\<open>try\<close> block a value of type \<open>'a option\<close> is the outcome of an
  expression: \<open>None\<close> when it raises (\<^verbatim>\<open>TypeError\<close> or \<^verbatim>\<open>AttributeError\<close>, both
  caught by \<^verbatim>\<open>except Exception\<close>).

  An ordering comparison with a number raises \<^verbatim>\<open>TypeError\<close> on \<^verbatim>\<open>None\<close> and on a
  string; a boolean counts as 0 or 1.\<close>

definition num :: "pyval \<Rightarrow> rat option" where
  "num v =
     (case v of
        PInt i \<Rightarrow> Some (of_int i)
      | PBool b \<Rightarrow> Some (if b then 1 else 0)
      | PFloat r \<Rightarrow> Some r
      | PNone \<Rightarrow> None
      | PStr s \<Rightarrow> None)"

text \<open>The truth value of an object in \<^verbatim>\<open>if obj:\<close>; it never raises.\<close>

definition truthy :: "pyval \<Rightarrow> bool" where
  "truthy v =
     (case v of
        PNone \<Rightarrow> False
      | PBool b \<Rightarrow> b
      | PInt i \<Rightarrow> i \<noteq> 0
      | PFloat r \<Rightarrow> r \<noteq> 0
      | PStr s \<Rightarrow> s \<noteq> [])"

text \<open>\<^verbatim>\<open>obj.lower()\<close>: only a string has the method, the other objects raise
  \<^verbatim>\<open>AttributeError\<close>.\<close>

definition str_lower :: "pyval \<Rightarrow> string option" where
  "str_lower v = (case v of PStr s \<Rightarrow> Some (lower s) | _ \<Rightarrow> None)"

datatype error = RuntimeError

text \<open>The frame shared by the three calculators:
  \<^verbatim>\<open>if not self.is_initialized: raise RuntimeError(...)\<close>, then
  \<^verbatim>\<open>try: <block> except Exception: return <default>\<close>.\<close>

definition guarded_try :: "bool \<Rightarrow> rat option \<Rightarrow> rat \<Rightarrow> error + rat" where
  "guarded_try is_initialized block dflt =
     (if \<not> is_initialized then Inl RuntimeError
      else (case block of Some v \<Rightarrow> Inr v | None \<Rightarrow> Inr dflt))"

definition light_ranker_block :: "TweetFeatures_obj \<Rightarrow> rat option" where
  "light_ranker_block feats = do {
     let score = 5/10;
     len \<leftarrow> num (length_o feats);
     let score = (if 50 \<le> len \<and> len \<le> 200 then score + 1/10 else score);
     qm \<leftarrow> num (question_mark_count_o feats);
     let score = (if qm > 0 then score + 5/100 else score);
     ex \<leftarrow> num (exclamation_count_o feats);
     let score = (if 0 < ex \<and> ex \<le> 2 then score + 3/100 else score);
     ht \<leftarrow> num (hashtag_count_o feats);
     let score = (if 1 \<le> ht \<and> ht \<le> 3 then score + 8/100 else score);
     mc \<leftarrow> num (mention_count_o feats);
     let score = (if 1 \<le> mc \<and> mc \<le> 2 then score + 5/100 else score);
     let score = (if truthy (has_url_o feats) then score + 2/100 else score);
     let score = (if truthy (has_media_o feats) then score + 5/100 else score);
     let score = (if truthy (is_retweet_o feats) then score - 1/10 else score);
     let score = (if ht > 5 then score - 1/10 else score);
     let score = (if mc > 3 then score - 5/100 else score);
     let score = (if ex > 3 then score - 5/100 else score);
     Some (max 0 (min 1 score))
   }"

definition calculate_light_ranker_score :: "bool \<Rightarrow> TweetFeatures_obj \<Rightarrow> error + rat" where
  "calculate_light_ranker_score is_initialized feats =
     guarded_try is_initialized (light_ranker_block feats) (5/10)"

definition toxic_words_svc :: "string list" where
  "toxic_words_svc =
     [''hate'', ''stupid'', ''idiot'', ''moron'', ''kill'', ''die'', ''damn'', ''hell'',
      ''crap'', ''suck'', ''terrible'', ''awful'', ''disgusting'', ''pathetic'']"

definition toxicity_block :: "pyval \<Rightarrow> rat option" where
  "toxicity_block txt = do {
     lower_text \<leftarrow> str_lower txt;
     let toxic_word_count = length (found_in lower_text toxic_words_svc);
     let toxicity_score = min (of_nat toxic_word_count * (2/10)) 1;
     Some toxicity_score
   }"

definition calculate_toxicity_score :: "bool \<Rightarrow> pyval \<Rightarrow> error + rat" where
  "calculate_toxicity_score is_initialized txt =
     guarded_try is_initialized (toxicity_block txt) (1/10)"

definition cta_words_svc :: "string list" where
  "cta_words_svc = [''what'', ''think'', ''opinion'', ''agree'', ''disagree'', ''thoughts'', ''share'']"

definition emotional_words_svc :: "string list" where
  "emotional_words_svc = [''amazing'', ''incredible'', ''shocking'', ''unbelievable'', ''wow'']"

definition engagement_block :: "TweetFeatures_obj \<Rightarrow> rat option" where
  "engagement_block feats = do {
     let score = 3/10;
     qm \<leftarrow> num (question_mark_count_o feats);
     let score = (if qm > 0 then score + 2/10 else score);
     lower_text \<leftarrow> str_lower (text_o feats);
     let cta_count = length (found_in lower_text cta_words_svc);
     let score = score + of_nat cta_count * (5/100);
     let emotional_count = length (found_in lower_text emotional_words_svc);
     let score = score + of_nat emotional_count * (3/100);
     len \<leftarrow> num (length_o feats);
     let score = (if 100 \<le> len \<and> len \<le> 200 then score + 1/10 else score);
     Some (max 0 (min 1 score))
   }"

definition calculate_engagement_score :: "bool \<Rightarrow> TweetFeatures_obj \<Rightarrow> error + rat" where
  "calculate_engagement_score is_initialized feats =
     guarded_try is_initialized (engagement_block feats) (3/10)"

definition peak_hours_svc :: "nat list" where
  "peak_hours_svc = [9, 10, 12, 13, 17, 18, 19, 20, 21]"

definition calculate_timing_score :: "env \<Rightarrow> rat" where
  "calculate_timing_score e =
     (let hour = now_hour e in
      if hour \<in> set peak_hours_svc then 9/10
      else if 8 \<le> hour \<and> hour \<le> 22 then 7/10
      else 4/10)"

text \<open>\<^verbatim>\<open>extract_features\<close> of the service differs from the one above in the two
  identifiers, which it takes from the optional dictionary \<^verbatim>\<open>metadata\<close>.\<close>

definition extract_features_svc ::
    "env \<Rightarrow> string \<Rightarrow> (string \<rightharpoonup> string) option \<Rightarrow> TweetFeatures" where
  "extract_features_svc e txt metadata =
     (extract_features e txt)
       \<lparr> author_id := (case metadata of None \<Rightarrow> None | Some m \<Rightarrow> m ''authorId''),
         tweet_id := (case metadata of None \<Rightarrow> None | Some m \<Rightarrow> m ''tweetId'') \<rparr>"

text \<open>\<^verbatim>\<open>calculate_virality_score\<close> of the service. Its own \<^verbatim>\<open>try\<close> block prints and
  raises again, so an error of a calculator is the error of the call.\<close>

definition calculate_virality_score_svc ::
    "bool \<Rightarrow> env \<Rightarrow> string \<Rightarrow> (string \<rightharpoonup> string) option \<Rightarrow> error + score" where
  "calculate_virality_score_svc is_initialized e txt metadata =
     (if \<not> is_initialized then Inl RuntimeError
      else
        let features = extract_features_svc e txt metadata in
        case calculate_light_ranker_score is_initialized (to_obj features) of
          Inl err \<Rightarrow> Inl err
        | Inr light_ranker \<Rightarrow>
        (case calculate_toxicity_score is_initialized (PStr txt) of
          Inl err \<Rightarrow> Inl err
        | Inr toxicity_sc \<Rightarrow>
        (case calculate_engagement_score is_initialized (to_obj features) of
          Inl err \<Rightarrow> Inl err
        | Inr engagement \<Rightarrow>
            let b = \<lparr> content_quality = light_ranker * (4/10),
                      social_signals = engagement * (3/10),
                      timing = calculate_timing_score e,
                      user_reputation = 7/10,
                      safety_score = (1 - toxicity_sc) * (2/10) \<rparr>;
                virality =
                  py_int ((content_quality b + social_signals b + timing b
                           + user_reputation b + safety_score b) * 100)
            in Inr \<lparr> light_ranker_score = light_ranker,
                     heavy_ranker_score = None,
                     toxicity_score = toxicity_sc,
                     engagement_score = engagement,
                     virality_score = virality,
                     features = features,
                     breakdown = b \<rparr>)))"

subsection \<open>Content quality in the words of the specification\<close>

text \<open>The following definitions are not taken from the source. They restate the
  description of content quality in the specification: a base of 0.3, one bonus for each
  criterion, and a final clamp.\<close>

definition length_bonus_spec :: "int \<Rightarrow> rat" where
  "length_bonus_spec n =
     (if 100 \<le> n \<and> n \<le> 200 then 3/10
      else if 50 \<le> n \<and> n \<le> 280 then 2/10
      else if n < 50 then - (1/10)
      else 0)"

definition question_bonus_spec :: "int \<Rightarrow> rat" where
  "question_bonus_spec n = (if n > 0 then 1/10 else 0)"

definition exclamation_bonus_spec :: "int \<Rightarrow> rat" where
  "exclamation_bonus_spec n =
     (if 1 \<le> n \<and> n \<le> 2 then 5/100 else 0) - (if n > 3 then 5/100 else 0)"

definition clamp_spec :: "rat \<Rightarrow> rat \<Rightarrow> rat \<Rightarrow> rat" where
  "clamp_spec lo hi x = (if x < lo then lo else if hi < x then hi else x)"

definition content_quality_spec :: "TweetFeatures \<Rightarrow> rat" where
  "content_quality_spec f =
     clamp_spec 0 1
       (3/10 + length_bonus_spec (length_f f)
        + calculate_trending_score (text_f f) * (2/10)
        + calculate_emotional_score (text_f f) * (15/100)
        + calculate_cta_score (text_f f) * (1/10)
        + question_bonus_spec (question_mark_count f)
        + exclamation_bonus_spec (exclamation_count f))"

subsection \<open>Sample inputs\<close>


definition night_env :: env where
  "night_env = \<lparr> time_time = 17/10, now_hour = 3, random_uniform = 0 \<rparr>"

definition later_env :: env where
  "later_env = \<lparr> time_time = 17004/10000, now_hour = 3, random_uniform = 0 \<rparr>"



definition dense_text :: string where
  "dense_text = ''wow amazing ai what you think!''"

definition plain_text :: string where
  "plain_text = ''just a note about my day here.''"

definition tagged_text :: string where
  "tagged_text = ''hello #one #two''"

definition rude_text :: string where
  "rude_text = ''you stupid idiot''"

definition vile_text :: string where
  "vile_text = ''I HATE this stupid idiot, kill it or die''"

text \<open>A record whose \<^verbatim>\<open>length\<close> is \<^verbatim>\<open>None\<close> and whose \<^verbatim>\<open>text\<close> is the
  integer 5.\<close>

definition ill_typed_features :: TweetFeatures_obj where
  "ill_typed_features =
     (to_obj (extract_features night_env ''hello''))\<lparr> length_o := PNone, text_o := PInt 5 \<rparr>"

section \<open>Properties\<close>

subsection \<open>Runs on the sample inputs\<close>


lemma plain_text_run:
  "calculate_virality_score night_env plain_text =
     \<lparr> score =
         \<lparr> light_ranker_score = 2/10, heavy_ranker_score = None, toxicity_score = 0,
           engagement_score = 2/10, virality_score = 140,
           features =
             \<lparr> text_f = plain_text, has_url = False, has_media = False, is_retweet = False,
               is_reply = False, length_f = 30, hashtag_count = 0, mention_count = 0,
               question_mark_count = 0, exclamation_count = 0, timestamp = 1700,
               author_id = None, tweet_id = None \<rparr>,
           breakdown =
             \<lparr> content_quality = 2/10, social_signals = 2/10, timing = 3/10,
               user_reputation = 5/10, safety_score = 2/10 \<rparr> \<rparr>,
       suggestions = [expand_content, add_question, peak_hours, add_hashtags],
       algorithm_version = ''enhanced-ai-v2.0'', processing_time = 0 \<rparr>"
  by code_simp


lemma dense_text_run:
  "calculate_virality_score night_env dense_text =
     \<lparr> score =
         \<lparr> light_ranker_score = 68/100, heavy_ranker_score = None, toxicity_score = 0,
           engagement_score = 55/100, virality_score = 232,
           features =
             \<lparr> text_f = dense_text, has_url = False, has_media = False, is_retweet = False,
               is_reply = False, length_f = 30, hashtag_count = 0, mention_count = 0,
               question_mark_count = 0, exclamation_count = 1, timestamp = 1700,
               author_id = None, tweet_id = None \<rparr>,
           breakdown =
             \<lparr> content_quality = 68/100, social_signals = 55/100, timing = 3/10,
               user_reputation = 59/100, safety_score = 2/10 \<rparr> \<rparr>,
       suggestions = [peak_hours, add_hashtags],
       algorithm_version = ''enhanced-ai-v2.0'', processing_time = 0 \<rparr>"
  by code_simp

lemma tagged_text_run:
  "hashtag_count (features (score (calculate_virality_score night_env tagged_text))) = 2
   \<and> suggestions (calculate_virality_score night_env tagged_text)
       = [expand_content, add_question, peak_hours]"
  by code_simp

lemma rude_text_found:
  "found_in (lower rude_text) toxic_words = [''stupid'', ''idiot'']"
  "found_in (lower rude_text) toxic_words_svc = [''stupid'', ''idiot'']"
  by code_simp+

lemma vile_text_found:
  "found_in (lower vile_text) toxic_words = [''hate'', ''stupid'', ''idiot'', ''kill'', ''die'']"
  by code_simp

lemma ill_typed_blocks:
  "light_ranker_block ill_typed_features = None"
  "toxicity_block (PInt 5) = None"
  "engagement_block ill_typed_features = None"
  by code_simp+

lemma same_millisecond:
  "py_int (time_time night_env * 1000) = py_int (time_time later_env * 1000)"
  by code_simp

subsection \<open>Bounds of the sub-scores\<close>

lemma clamp_lower: "lo \<le> max lo (min hi (x::rat))"
  by simp

lemma clamp_upper: "lo \<le> hi \<Longrightarrow> max lo (min hi (x::rat)) \<le> hi"
  by simp


lemma content_quality_bounds:
  "0 \<le> calculate_content_quality f" "calculate_content_quality f \<le> 1"
  unfolding calculate_content_quality_def Let_def
  by (rule clamp_lower, rule clamp_upper) simp

lemma engagement_potential_bounds:
  "0 \<le> calculate_engagement_potential f" "calculate_engagement_potential f \<le> 1"
  unfolding calculate_engagement_potential_def Let_def
  by (rule clamp_lower, rule clamp_upper) simp

lemma dynamic_timing_values:
  "calculate_dynamic_timing e \<in> {9/10, 85/100, 8/10, 75/100, 6/10, 3/10}"
  by (simp add: calculate_dynamic_timing_def Let_def)

lemma dynamic_timing_bounds:
  "3/10 \<le> calculate_dynamic_timing e" "calculate_dynamic_timing e \<le> 9/10"
  by (simp_all add: calculate_dynamic_timing_def Let_def)

lemma user_reputation_bounds:
  "3/10 \<le> calculate_user_reputation e t" "calculate_user_reputation e t \<le> 9/10"
  unfolding calculate_user_reputation_def Let_def
  by (rule clamp_lower, rule clamp_upper) simp

lemma toxicity_count: "toxicity t = of_nat (length (found_in (lower t) toxic_words)) * (2/10)"
  by (simp add: toxicity_def sum_list_triv)

lemma found_in_le: "length (found_in s words) \<le> length words"
  by (simp add: found_in_def)

lemma toxicity_nonneg: "0 \<le> toxicity t"
  by (simp add: toxicity_count)

lemma toxicity_le_one: "toxicity t \<le> 1"
proof -
  have "length (found_in (lower t) toxic_words) \<le> 5"
    using found_in_le [of "lower t" toxic_words] by (simp add: toxic_words_def)
  then show ?thesis by (simp add: toxicity_count)
qed

lemma safety_bounds: "0 \<le> safety t" "safety t \<le> 1"
  using toxicity_nonneg [of t] by (simp_all add: safety_def)




subsection \<open>Projections of the result\<close>

lemma result_breakdown: "breakdown (score (calculate_virality_score e t)) = make_breakdown e t"
  by (simp add: calculate_virality_score_def Let_def)

lemma result_features: "features (score (calculate_virality_score e t)) = extract_features e t"
  by (simp add: calculate_virality_score_def Let_def)

lemma result_suggestions:
  "suggestions (calculate_virality_score e t)
     = generate_suggestions (make_breakdown e t) (extract_features e t)"
  by (simp add: calculate_virality_score_def Let_def)


lemma result_toxicity: "toxicity_score (score (calculate_virality_score e t)) = toxicity t"
  by (simp add: calculate_virality_score_def Let_def)

lemma make_breakdown_fields:
  "content_quality (make_breakdown e t) = calculate_content_quality (extract_features e t)"
  "social_signals (make_breakdown e t) = calculate_engagement_potential (extract_features e t)"
  "timing (make_breakdown e t) = calculate_dynamic_timing e"
  "user_reputation (make_breakdown e t) = calculate_user_reputation e t"
  "safety_score (make_breakdown e t) = safety t * (2/10)"
  by (simp_all add: make_breakdown_def Let_def)

lemma py_int_nonneg: "0 \<le> x \<Longrightarrow> py_int x = \<lfloor>x\<rfloor>"
  by (simp add: py_int_def)


subsection \<open>The calculators of the service\<close>

lemma guarded_try_initialized:
  "guarded_try True block dflt = Inr (case block of Some v \<Rightarrow> v | None \<Rightarrow> dflt)"
  by (simp add: guarded_try_def split: option.splits)

lemma guarded_try_uninitialized: "guarded_try False block dflt = Inl RuntimeError"
  by (simp add: guarded_try_def)

lemma bind_SomeE:
  "Option.bind m f = Some v \<Longrightarrow> (\<And>x. f x = Some v \<Longrightarrow> Q) \<Longrightarrow> Q"
  by (cases m) auto

lemma Let_SomeE: "Let s f = Some v \<Longrightarrow> (\<And>x. f x = Some v \<Longrightarrow> Q) \<Longrightarrow> Q"
  by (simp add: Let_def)

lemma light_ranker_block_bounds:
  "light_ranker_block f = Some v \<Longrightarrow> 0 \<le> v \<and> v \<le> 1"
  unfolding light_ranker_block_def by (elim bind_SomeE Let_SomeE) auto

lemma engagement_block_bounds:
  "engagement_block f = Some v \<Longrightarrow> 0 \<le> v \<and> v \<le> 1"
  unfolding engagement_block_def by (elim bind_SomeE Let_SomeE) auto

lemma toxicity_block_bounds:
  "toxicity_block x = Some v \<Longrightarrow> 0 \<le> v \<and> v \<le> 1"
  by (auto simp: toxicity_block_def Let_def bind_eq_Some_conv)

lemma light_ranker_score_bounds:
  "calculate_light_ranker_score True f = Inr v \<Longrightarrow> 0 \<le> v \<and> v \<le> 1"
  using light_ranker_block_bounds [of f]
  by (auto simp: calculate_light_ranker_score_def guarded_try_initialized split: option.splits)

lemma engagement_score_bounds:
  "calculate_engagement_score True f = Inr v \<Longrightarrow> 0 \<le> v \<and> v \<le> 1"
  using engagement_block_bounds [of f]
  by (auto simp: calculate_engagement_score_def guarded_try_initialized split: option.splits)

lemma toxicity_score_bounds:
  "calculate_toxicity_score True x = Inr v \<Longrightarrow> 0 \<le> v \<and> v \<le> 1"
  using toxicity_block_bounds [of x]
  by (auto simp: calculate_toxicity_score_def guarded_try_initialized split: option.splits)

lemma calculators_return:
  "\<exists>v. calculate_light_ranker_score True f = Inr v"
  "\<exists>v. calculate_toxicity_score True x = Inr v"
  "\<exists>v. calculate_engagement_score True f = Inr v"
  by (simp_all add: calculate_light_ranker_score_def calculate_toxicity_score_def
      calculate_engagement_score_def guarded_try_initialized)

lemma timing_score_bounds: "4/10 \<le> calculate_timing_score e"
  by (simp add: calculate_timing_score_def Let_def)

lemma virality_svc:
  "\<exists>s. calculate_virality_score_svc True e t md = Inr s
       \<and> virality_score s
           = \<lfloor>100 * (content_quality (breakdown s) + social_signals (breakdown s)
                     + timing (breakdown s) + user_reputation (breakdown s)
                     + safety_score (breakdown s))\<rfloor>"
proof -
  obtain l where l: "calculate_light_ranker_score True (to_obj (extract_features_svc e t md)) = Inr l"
    using calculators_return(1) by blast
  obtain x where x: "calculate_toxicity_score True (PStr t) = Inr x"
    using calculators_return(2) by blast
  obtain g where g: "calculate_engagement_score True (to_obj (extract_features_svc e t md)) = Inr g"
    using calculators_return(3) by blast
  have "0 \<le> l * (4/10)" using light_ranker_score_bounds [OF l] by simp
  moreover have "0 \<le> g * (3/10)" using engagement_score_bounds [OF g] by simp
  moreover have "0 \<le> (1 - x) * (2/10)" using toxicity_score_bounds [OF x] by simp
  moreover have "0 \<le> calculate_timing_score e" using timing_score_bounds [of e] by simp
  ultimately have "0 \<le> (l * (4/10) + g * (3/10) + calculate_timing_score e + 7/10
                        + (1 - x) * (2/10)) * 100"
    by simp
  then show ?thesis
    by (simp add: calculate_virality_score_svc_def Let_def l x g py_int_nonneg mult.commute)
qed

subsection \<open>The empty text\<close>









subsection \<open>The suggestion rules\<close>

lemma hashtag_suggestions_differ:
  "add_hashtags \<noteq> reduce_hashtags" "add_hashtags \<noteq> expand_content"
  "add_hashtags \<noteq> add_keywords" "add_hashtags \<noteq> add_question" "add_hashtags \<noteq> more_cta"
  "add_hashtags \<noteq> peak_hours" "reduce_hashtags \<noteq> expand_content"
  "reduce_hashtags \<noteq> add_keywords" "reduce_hashtags \<noteq> add_question"
  "reduce_hashtags \<noteq> more_cta" "reduce_hashtags \<noteq> peak_hours"
  by (simp_all add: add_hashtags_def reduce_hashtags_def expand_content_def add_keywords_def
      add_question_def more_cta_def peak_hours_def)

lemma length_rules:
  "length (content_rule b f) \<le> 1" "length (engagement_rule b f) \<le> 1"
  "length (timing_rule b) \<le> 1" "length (hashtag_rule f) \<le> 1"
  by (simp_all add: content_rule_def engagement_rule_def timing_rule_def hashtag_rule_def)

lemma not_in_rules:
  "add_hashtags \<notin> set (content_rule b f)" "add_hashtags \<notin> set (engagement_rule b f)"
  "add_hashtags \<notin> set (timing_rule b)"
  "reduce_hashtags \<notin> set (content_rule b f)" "reduce_hashtags \<notin> set (engagement_rule b f)"
  "reduce_hashtags \<notin> set (timing_rule b)"
  using hashtag_suggestions_differ
  by (auto simp: content_rule_def engagement_rule_def timing_rule_def)

lemma hashtag_rule_mem:
  "add_hashtags \<in> set (hashtag_rule f) \<longleftrightarrow> hashtag_count f = 0"
  "reduce_hashtags \<in> set (hashtag_rule f) \<longleftrightarrow> hashtag_count f > 3"
  using hashtag_suggestions_differ(1) by (auto simp: hashtag_rule_def)

section \<open>The claims\<close>



text \<open>Claim C2. For every text and every reading of the environment, each value of the
  breakdown lies between 0 and 1: content quality and social signals are clamped to
  that interval, the timing is one of the six step values 0.9, 0.85, 0.8, 0.75, 0.6 and
  0.3, the user reputation lies between 0.3 and 0.9, and the safety entry, already
  multiplied by 0.2, lies between 0 and 0.2.\<close>

theorem breakdown_values_in_range:
  "(let b = breakdown (score (calculate_virality_score e t)) in
      0 \<le> content_quality b \<and> content_quality b \<le> 1
      \<and> 0 \<le> social_signals b \<and> social_signals b \<le> 1
      \<and> timing b \<in> {9/10, 85/100, 8/10, 75/100, 6/10, 3/10}
      \<and> 0 \<le> timing b \<and> timing b \<le> 1
      \<and> 3/10 \<le> user_reputation b \<and> user_reputation b \<le> 9/10
      \<and> 0 \<le> safety_score b \<and> safety_score b \<le> 2/10)"
proof -
  have t01: "0 \<le> calculate_dynamic_timing e" "calculate_dynamic_timing e \<le> 1"
    using dynamic_timing_bounds [of e] by simp_all
  have s: "0 \<le> safety t * (2/10)" "safety t * (2/10) \<le> 2/10"
    using safety_bounds [of t] by simp_all
  show ?thesis
    unfolding Let_def result_breakdown make_breakdown_fields
    using content_quality_bounds [of "extract_features e t"]
      engagement_potential_bounds [of "extract_features e t"]
      dynamic_timing_values [of e] t01 user_reputation_bounds [of e t] s
    by blast
qed

theorem breakdown_values_in_range_witness:
  "breakdown (score (calculate_virality_score night_env dense_text))
     = \<lparr> content_quality = 68/100, social_signals = 55/100, timing = 3/10,
         user_reputation = 59/100, safety_score = 2/10 \<rparr>
   \<and> (let b = breakdown (score (calculate_virality_score night_env dense_text)) in
      0 \<le> content_quality b \<and> content_quality b \<le> 1
      \<and> 0 \<le> social_signals b \<and> social_signals b \<le> 1
      \<and> timing b \<in> {9/10, 85/100, 8/10, 75/100, 6/10, 3/10}
      \<and> 0 \<le> timing b \<and> timing b \<le> 1
      \<and> 3/10 \<le> user_reputation b \<and> user_reputation b \<le> 9/10
      \<and> 0 \<le> safety_score b \<and> safety_score b \<le> 2/10)"
  using breakdown_values_in_range [of night_env dense_text]
  by (simp add: dense_text_run)

text \<open>Claim C3. For every feature record, the content quality computed by the source is
  the one the specification describes: start at 0.3; add 0.3 for a length from 100 to 200,
  otherwise 0.2 for a length from 50 to 280, otherwise subtract 0.1 for a length below 50;
  add 0.2 times the trending score, 0.15 times the emotional score and 0.1 times the
  call-to-action score; add 0.1 if there is a question mark; add 0.05 for one or two
  exclamation marks and subtract 0.05 for more than three; clamp the total to the
  interval from 0 to 1.\<close>

theorem content_quality_formula:
  "calculate_content_quality f = content_quality_spec f"
  unfolding calculate_content_quality_def content_quality_spec_def Let_def
    length_bonus_spec_def question_bonus_spec_def exclamation_bonus_spec_def clamp_spec_def
  by (simp add: max_def min_def)

theorem content_quality_formula_witness:
  "content_quality_spec (features (score (calculate_virality_score night_env dense_text)))
     = 68/100"
proof -
  have "calculate_content_quality (features (score (calculate_virality_score night_env dense_text)))
          = content_quality (breakdown (score (calculate_virality_score night_env dense_text)))"
    by (simp add: result_features result_breakdown make_breakdown_fields)
  then show ?thesis
    using content_quality_formula
      [of "features (score (calculate_virality_score night_env dense_text))"]
    by (simp add: dense_text_run)
qed

text \<open>Claim C4. For every text, two runs of the pipeline that read the same timestamp
  in milliseconds, the same hour and the same random perturbation produce the same
  result: the same features, the same breakdown, the same virality score and the same
  list of suggestions.\<close>

theorem same_readings_same_output:
  assumes "py_int (time_time e1 * 1000) = py_int (time_time e2 * 1000)"
    and "now_hour e1 = now_hour e2"
    and "random_uniform e1 = random_uniform e2"
  shows "calculate_virality_score e1 t = calculate_virality_score e2 t
     \<and> features (score (calculate_virality_score e1 t))
         = features (score (calculate_virality_score e2 t))
     \<and> breakdown (score (calculate_virality_score e1 t))
         = breakdown (score (calculate_virality_score e2 t))
     \<and> virality_score (score (calculate_virality_score e1 t))
         = virality_score (score (calculate_virality_score e2 t))
     \<and> suggestions (calculate_virality_score e1 t) = suggestions (calculate_virality_score e2 t)"
proof -
  have f: "extract_features e1 t = extract_features e2 t"
    using assms(1) by (simp add: extract_features_def)
  have tm: "calculate_dynamic_timing e1 = calculate_dynamic_timing e2"
    using assms(2) by (simp add: calculate_dynamic_timing_def)
  have r: "calculate_user_reputation e1 t = calculate_user_reputation e2 t"
    using assms(3) by (simp add: calculate_user_reputation_def)
  have b: "make_breakdown e1 t = make_breakdown e2 t"
    by (simp add: make_breakdown_def f tm r)
  have "calculate_virality_score e1 t = calculate_virality_score e2 t"
    by (simp add: calculate_virality_score_def f b)
  then show ?thesis by simp
qed

text \<open>The two night readings differ in the clock and agree in the millisecond.\<close>

theorem same_readings_same_output_witness:
  "time_time night_env \<noteq> time_time later_env
   \<and> py_int (time_time night_env * 1000) = py_int (time_time later_env * 1000)
   \<and> now_hour night_env = now_hour later_env
   \<and> random_uniform night_env = random_uniform later_env
   \<and> calculate_virality_score night_env plain_text = calculate_virality_score later_env plain_text
   \<and> suggestions (calculate_virality_score later_env plain_text)
       = [expand_content, add_question, peak_hours, add_hashtags]"
proof -
  have b: "now_hour night_env = now_hour later_env"
    by (simp add: night_env_def later_env_def)
  have c: "random_uniform night_env = random_uniform later_env"
    by (simp add: night_env_def later_env_def)
  have d: "time_time night_env \<noteq> time_time later_env"
    by (simp add: night_env_def later_env_def)
  have eq: "calculate_virality_score night_env plain_text
              = calculate_virality_score later_env plain_text"
    by (rule conjunct1 [OF same_readings_same_output [OF same_millisecond b c]])
  have "suggestions (calculate_virality_score later_env plain_text)
          = suggestions (calculate_virality_score night_env plain_text)"
    by (simp only: eq)
  then have s: "suggestions (calculate_virality_score later_env plain_text)
                  = [expand_content, add_question, peak_hours, add_hashtags]"
    by (simp add: plain_text_run)
  from d same_millisecond b c eq s show ?thesis
    by blast
qed

text \<open>A text of length 30 without question mark and hashtag, scored at night, that is
  dense with keywords: its content quality is 0.68 and its social signals are 0.55, so
  neither the content rule nor the engagement rule fires and only two suggestions are
  emitted.\<close>

theorem short_text_counterexample:
  "length dense_text = 30
   \<and> question_mark_count (features (score (calculate_virality_score night_env dense_text))) = 0
   \<and> hashtag_count (features (score (calculate_virality_score night_env dense_text))) = 0
   \<and> timing (breakdown (score (calculate_virality_score night_env dense_text))) < 7/10
   \<and> suggestions (calculate_virality_score night_env dense_text) = [peak_hours, add_hashtags]
   \<and> length (suggestions (calculate_virality_score night_env dense_text)) = 2
   \<and> expand_content \<notin> set (suggestions (calculate_virality_score night_env dense_text))
   \<and> add_question \<notin> set (suggestions (calculate_virality_score night_env dense_text))"
  by (simp add: dense_text_run)
    (simp add: dense_text_def expand_content_def add_question_def peak_hours_def
      add_hashtags_def)

text \<open>Claim C5, as amended. For every text of length 30 without question mark and
  without hashtag, scored at an hour where the timing score is below 0.7, whose content
  quality is below 0.6 and whose social signals are below 0.5, the generator emits the
  content-expansion suggestion (priority high, expected improvement 20), the
  add-a-question suggestion (priority high, expected improvement 25), the peak-hours
  suggestion and the add-hashtags suggestion (priority medium, expected improvement 12),
  in this order.\<close>

theorem short_text_suggestions:
  assumes "length t = 30"
    and "question_mark_count (features (score (calculate_virality_score e t))) = 0"
    and "hashtag_count (features (score (calculate_virality_score e t))) = 0"
    and "timing (breakdown (score (calculate_virality_score e t))) < 7/10"
    and "content_quality (breakdown (score (calculate_virality_score e t))) < 6/10"
    and "social_signals (breakdown (score (calculate_virality_score e t))) < 5/10"
  shows "suggestions (calculate_virality_score e t)
           = [expand_content, add_question, peak_hours, add_hashtags]
     \<and> 3 \<le> length (suggestions (calculate_virality_score e t))
     \<and> priority expand_content = ''high'' \<and> expected_improvement expand_content = 20
     \<and> priority add_question = ''high'' \<and> expected_improvement add_question = 25
     \<and> priority add_hashtags = ''medium'' \<and> expected_improvement add_hashtags = 12"
proof -
  have len: "length_f (extract_features e t) < 100"
    using assms(1) by (simp add: extract_features_def)
  have "generate_suggestions (make_breakdown e t) (extract_features e t)
          = [expand_content, add_question, peak_hours, add_hashtags]"
    using assms(2-6) len
    by (simp add: result_features result_breakdown generate_suggestions_def content_rule_def
        engagement_rule_def timing_rule_def hashtag_rule_def)
  then show ?thesis
    by (simp add: result_suggestions expand_content_def add_question_def add_hashtags_def)
qed

theorem short_text_suggestions_witness:
  "length plain_text = 30
   \<and> question_mark_count (features (score (calculate_virality_score night_env plain_text))) = 0
   \<and> hashtag_count (features (score (calculate_virality_score night_env plain_text))) = 0
   \<and> timing (breakdown (score (calculate_virality_score night_env plain_text))) < 7/10
   \<and> content_quality (breakdown (score (calculate_virality_score night_env plain_text))) < 6/10
   \<and> social_signals (breakdown (score (calculate_virality_score night_env plain_text))) < 5/10
   \<and> suggestions (calculate_virality_score night_env plain_text)
       = [expand_content, add_question, peak_hours, add_hashtags]"
proof -
  have h1: "length plain_text = 30"
    by (simp add: plain_text_def)
  have h2: "question_mark_count (features (score (calculate_virality_score night_env plain_text))) = 0"
    by (simp add: plain_text_run)
  have h3: "hashtag_count (features (score (calculate_virality_score night_env plain_text))) = 0"
    by (simp add: plain_text_run)
  have h4: "timing (breakdown (score (calculate_virality_score night_env plain_text))) < 7/10"
    by (simp add: plain_text_run)
  have h5: "content_quality (breakdown (score (calculate_virality_score night_env plain_text))) < 6/10"
    by (simp add: plain_text_run)
  have h6: "social_signals (breakdown (score (calculate_virality_score night_env plain_text))) < 5/10"
    by (simp add: plain_text_run)
  from short_text_suggestions [OF h1 h2 h3 h4 h5 h6]
  have "suggestions (calculate_virality_score night_env plain_text)
          = [expand_content, add_question, peak_hours, add_hashtags]"
    by (rule conjunct1)
  with h1 h2 h3 h4 h5 h6 show ?thesis
    by blast
qed

text \<open>Claim C6. For every text whose lower-cased form contains exactly two words of
  the toxic-word list of the enhanced algorithm, the toxicity score is 0.4 and the safety
  score (the local variable of that name) is 0.6; the result reports the toxicity 0.4,
  and the entry of the breakdown is 0.6 times 0.2. For every text whose lower-cased
  form contains exactly two words of the longer list of the service, the toxicity score
  of the initialised service is 0.4.\<close>

theorem two_toxic_words:
  "(length (found_in (lower t) toxic_words) = 2 \<longrightarrow>
      toxicity t = 4/10 \<and> safety t = 6/10
      \<and> toxicity_score (score (calculate_virality_score e t)) = 4/10
      \<and> safety_score (breakdown (score (calculate_virality_score e t))) = 6/10 * (2/10))
   \<and> (length (found_in (lower t) toxic_words_svc) = 2 \<longrightarrow>
      calculate_toxicity_score True (PStr t) = Inr (4/10))"
  by (simp add: toxicity_count safety_def result_toxicity result_breakdown
      make_breakdown_fields calculate_toxicity_score_def guarded_try_initialized
      toxicity_block_def str_lower_def)

theorem two_toxic_words_witness:
  "length (found_in (lower rude_text) toxic_words) = 2
   \<and> length (found_in (lower rude_text) toxic_words_svc) = 2
   \<and> toxicity rude_text = 4/10 \<and> safety rude_text = 6/10
   \<and> toxicity_score (score (calculate_virality_score night_env rude_text)) = 4/10
   \<and> calculate_toxicity_score True (PStr rude_text) = Inr (4/10)"
  using two_toxic_words [of rude_text night_env]
  by (simp add: rude_text_found)



text \<open>An exception raised inside a calculator that is not caught: on a service that is
  not initialised each of the three calculators raises \<^verbatim>\<open>RuntimeError\<close> before its
  \<^verbatim>\<open>try\<close> block, and the light ranker does not return its default 0.5.\<close>

theorem uninitialized_calculators_raise:
  "calculate_light_ranker_score False (to_obj (extract_features night_env ''hello''))
     = Inl RuntimeError
   \<and> calculate_toxicity_score False (PStr ''hello'') = Inl RuntimeError
   \<and> calculate_engagement_score False (to_obj (extract_features night_env ''hello''))
     = Inl RuntimeError
   \<and> calculate_light_ranker_score False (to_obj (extract_features night_env ''hello''))
     \<noteq> Inr (5/10)"
  by (simp add: calculate_light_ranker_score_def calculate_toxicity_score_def
      calculate_engagement_score_def guarded_try_uninitialized)

text \<open>Claim C8, as amended. On an initialised service, an exception raised inside the
  \<^verbatim>\<open>try\<close> block of a calculator is caught there and the calculator returns its default:
  0.5 for the light ranker, 0.1 for the toxicity, 0.3 for the engagement. An initialised
  calculator therefore always returns a number, and so does the scoring of a text that
  calls the three. On a service that is not initialised each calculator raises
  \<^verbatim>\<open>RuntimeError\<close>, which is not caught.\<close>

theorem initialized_calculators_default:
  "(light_ranker_block f = None \<longrightarrow> calculate_light_ranker_score True f = Inr (5/10))
   \<and> (toxicity_block x = None \<longrightarrow> calculate_toxicity_score True x = Inr (1/10))
   \<and> (engagement_block f = None \<longrightarrow> calculate_engagement_score True f = Inr (3/10))
   \<and> (\<exists>v. calculate_light_ranker_score True f = Inr v)
   \<and> (\<exists>v. calculate_toxicity_score True x = Inr v)
   \<and> (\<exists>v. calculate_engagement_score True f = Inr v)
   \<and> (\<exists>s. calculate_virality_score_svc True e t md = Inr s)
   \<and> calculate_light_ranker_score False f = Inl RuntimeError
   \<and> calculate_toxicity_score False x = Inl RuntimeError
   \<and> calculate_engagement_score False f = Inl RuntimeError"
proof -
  have "\<exists>s. calculate_virality_score_svc True e t md = Inr s"
    using virality_svc [of e t md] by blast
  then show ?thesis
    by (simp add: calculate_light_ranker_score_def calculate_toxicity_score_def
        calculate_engagement_score_def guarded_try_initialized guarded_try_uninitialized)
qed

theorem initialized_calculators_default_witness:
  "light_ranker_block ill_typed_features = None
   \<and> toxicity_block (PInt 5) = None
   \<and> engagement_block ill_typed_features = None
   \<and> calculate_light_ranker_score True ill_typed_features = Inr (5/10)
   \<and> calculate_toxicity_score True (PInt 5) = Inr (1/10)
   \<and> calculate_engagement_score True ill_typed_features = Inr (3/10)"
  using initialized_calculators_default [of ill_typed_features "PInt 5"] ill_typed_blocks
  by simp

text \<open>Claim C9. For every breakdown and every feature record, the generator returns at
  most four suggestions, one for each rule group. The add-hashtags suggestion is emitted
  exactly when the hashtag count is 0, the reduce-hashtags suggestion exactly when it is
  above 3; the two are never emitted together, and neither is emitted for a count from
  1 to 3.\<close>

theorem suggestions_bounded_and_hashtag_exclusive:
  "length (generate_suggestions b f) \<le> 4
   \<and> (add_hashtags \<in> set (generate_suggestions b f) \<longleftrightarrow> hashtag_count f = 0)
   \<and> (reduce_hashtags \<in> set (generate_suggestions b f) \<longleftrightarrow> hashtag_count f > 3)
   \<and> \<not> (add_hashtags \<in> set (generate_suggestions b f)
          \<and> reduce_hashtags \<in> set (generate_suggestions b f))
   \<and> (1 \<le> hashtag_count f \<and> hashtag_count f \<le> 3 \<longrightarrow>
        add_hashtags \<notin> set (generate_suggestions b f)
        \<and> reduce_hashtags \<notin> set (generate_suggestions b f))"
proof -
  have len: "length (generate_suggestions b f) \<le> 4"
    using length_rules(1) [of b f] length_rules(2) [of b f] length_rules(3) [of b]
      length_rules(4) [of f]
    by (simp add: generate_suggestions_def)
  have a: "add_hashtags \<in> set (generate_suggestions b f) \<longleftrightarrow> hashtag_count f = 0"
    by (simp add: generate_suggestions_def not_in_rules hashtag_rule_mem)
  have r: "reduce_hashtags \<in> set (generate_suggestions b f) \<longleftrightarrow> hashtag_count f > 3"
    by (simp add: generate_suggestions_def not_in_rules hashtag_rule_mem)
  show ?thesis using len a r by auto
qed

theorem suggestions_bounded_and_hashtag_exclusive_witness:
  "1 \<le> hashtag_count (features (score (calculate_virality_score night_env tagged_text)))
   \<and> hashtag_count (features (score (calculate_virality_score night_env tagged_text))) \<le> 3
   \<and> add_hashtags \<notin> set (suggestions (calculate_virality_score night_env tagged_text))
   \<and> reduce_hashtags \<notin> set (suggestions (calculate_virality_score night_env tagged_text))
   \<and> length (suggestions (calculate_virality_score night_env tagged_text)) \<le> 4"
  using suggestions_bounded_and_hashtag_exclusive
    [of "make_breakdown night_env tagged_text" "extract_features night_env tagged_text"]
    tagged_text_run
  by (simp add: result_suggestions result_features)

text \<open>Claim C10. For every text, the toxicity score of the enhanced algorithm is 0.2
  times the number of words of its toxic-word list that occur in the lower-cased text;
  the list has exactly five entries, all different, so the score is at most 1. The
  safety score is therefore exactly 1 minus the toxicity score: taking the maximum with
  0 does not change the value.\<close>

theorem toxicity_at_most_one:
  "length toxic_words = 5 \<and> distinct toxic_words
   \<and> toxicity t = of_nat (length (found_in (lower t) toxic_words)) * (2/10)
   \<and> toxicity t \<le> 1
   \<and> safety t = 1 - toxicity t
   \<and> max 0 (1 - toxicity t) = 1 - toxicity t
   \<and> toxicity_score (score (calculate_virality_score e t)) \<le> 1"
proof -
  have "length toxic_words = 5 \<and> distinct toxic_words"
    by (simp add: toxic_words_def)
  moreover have "max 0 (1 - toxicity t) = 1 - toxicity t"
    using toxicity_le_one [of t] by simp
  ultimately show ?thesis
    using toxicity_count [of t] toxicity_le_one [of t]
    by (simp add: safety_def result_toxicity)
qed

text \<open>The text with all five words reaches the bound.\<close>

theorem toxicity_at_most_one_witness:
  "length (found_in (lower vile_text) toxic_words) = 5
   \<and> toxicity vile_text = 1 \<and> safety vile_text = 0
   \<and> max 0 (1 - toxicity vile_text) = 1 - toxicity vile_text"
  using toxicity_at_most_one [of vile_text night_env]
  by (simp add: vile_text_found)

end
